theory Spec2Isabelle
  imports Main "HOL-Library.Word"
begin

section \<open>Application layer of the light sensor (app.c)\<close>

text \<open>
  The module \<^verbatim>\<open>app.c\<close> owns one private variable, \<^verbatim>\<open>RGB_COLOR\<close>, and otherwise
  acts only through calls into the drivers (clock tree, sleep, GPIO, I2C sensor,
  scheduler, LETIMER, LEDs).  The drivers are not part of the sources at hand, so a
  driver call is recorded, with its arguments, in the order in which the C code
  issues it.  A function of \<^verbatim>\<open>app.c\<close> is a state transformer on the pair of the
  private variable and that record of calls.
\<close>

subsection \<open>Data\<close>

text \<open>
  A C \<^verbatim>\<open>float\<close> is only ever copied by this module, so it is kept as its 32-bit
  pattern.  \<^verbatim>\<open>uint32_t\<close> and \<^verbatim>\<open>int\<close> are 32-bit words.
\<close>

type_synonym float32 = "32 word"
type_synonym uint32_t = "32 word"

text \<open>The fields of \<^verbatim>\<open>APP_LETIMER_PWM_TypeDef\<close> that \<^verbatim>\<open>app_letimer_pwm_open\<close> assigns.\<close>

record APP_LETIMER_PWM_TypeDef =
  active_period :: float32
  debugRun :: bool
  enable :: bool
  out_pin_0_en :: bool
  out_pin_1_en :: bool
  out_pin_route0 :: uint32_t
  out_pin_route1 :: uint32_t
  period :: float32
  comp0_cb :: uint32_t
  comp0_irq_enable :: bool
  comp1_cb :: uint32_t
  comp1_irq_enable :: bool
  uf_cb :: uint32_t
  uf_irq_enable :: bool

text \<open>
  Constants that \<^verbatim>\<open>app.c\<close> takes from headers that are not among the sources
  (\<^verbatim>\<open>app.h\<close>, the driver headers and the vendor's \<^verbatim>\<open>em_letimer.h\<close>).  Their values
  are parameters of the model.  \<^verbatim>\<open>EXPECTED_READ_DATA\<close> stands for the macro's value
  after the conversion to \<^verbatim>\<open>uint32_t\<close> that the comparison with a \<^verbatim>\<open>uint32_t\<close>
  operand applies to it.
\<close>

record hdr_consts =
  EXPECTED_READ_DATA :: uint32_t
  SI1133_LIGHT_CB :: uint32_t
  RGB_LED_1 :: uint32_t
  PWM_PER :: float32
  PWM_ACT_PER :: float32
  LETIMER0_COMP0_CB :: uint32_t
  LETIMER0_COMP1_CB :: uint32_t
  LETIMER0_UF_CB :: uint32_t
  LETIMER_ROUTELOC0_OUT0LOC_LOC17 :: uint32_t
  LETIMER_ROUTELOC0_OUT1LOC_LOC16 :: uint32_t

text \<open>\<^verbatim>\<open>brd_config.h\<close>: the two PWM routes.\<close>

definition PWM_ROUTE_0 :: "hdr_consts \<Rightarrow> uint32_t" where
  "PWM_ROUTE_0 K = LETIMER_ROUTELOC0_OUT0LOC_LOC17 K"

definition PWM_ROUTE_1 :: "hdr_consts \<Rightarrow> uint32_t" where
  "PWM_ROUTE_1 K = LETIMER_ROUTELOC0_OUT1LOC_LOC16 K"

datatype led_color = COLOR_RED | COLOR_GREEN | COLOR_BLUE

datatype letimer = LETIMER0

text \<open>One constructor for each driver function that \<^verbatim>\<open>app.c\<close> calls.\<close>

datatype call =
    Cmu_open
  | Sleep_open
  | Gpio_open
  | Si1133_i2c_open
  | Scheduler_open
  | Rgb_init
  | Letimer_pwm_open letimer APP_LETIMER_PWM_TypeDef
  | Letimer_start letimer bool
  | Si1133_read_white_light uint32_t
  | Si1133_force_cmd
  | Si1133_read_result
  | Leds_enabled uint32_t led_color bool

record app_state =
  RGB_COLOR :: "32 word"
  calls :: "call list"

definition do_call :: "call \<Rightarrow> app_state \<Rightarrow> app_state" where
  "do_call c s = s\<lparr>calls := calls s @ [c]\<rparr>"

subsection \<open>Functions of app.c\<close>

text \<open>The local \<^verbatim>\<open>app_letimer_pwm_struct\<close> after its fourteen assignments.\<close>

definition app_letimer_pwm_struct ::
  "float32 \<Rightarrow> float32 \<Rightarrow> uint32_t \<Rightarrow> uint32_t \<Rightarrow> uint32_t \<Rightarrow> uint32_t \<Rightarrow> uint32_t
    \<Rightarrow> APP_LETIMER_PWM_TypeDef" where
  "app_letimer_pwm_struct period' act_period out0_route out1_route comp0_cb' comp1_cb' underflow_cb =
     \<lparr> active_period = act_period,
       debugRun = False,
       enable = False,
       out_pin_0_en = False,
       out_pin_1_en = False,
       out_pin_route0 = out0_route,
       out_pin_route1 = out1_route,
       period = period',
       comp0_cb = comp0_cb',
       comp0_irq_enable = False,
       comp1_cb = comp1_cb',
       comp1_irq_enable = True,
       uf_cb = underflow_cb,
       uf_irq_enable = True \<rparr>"

definition app_letimer_pwm_open ::
  "float32 \<Rightarrow> float32 \<Rightarrow> uint32_t \<Rightarrow> uint32_t \<Rightarrow> uint32_t \<Rightarrow> uint32_t \<Rightarrow> uint32_t
    \<Rightarrow> app_state \<Rightarrow> app_state" where
  "app_letimer_pwm_open period' act_period out0_route out1_route comp0_cb' comp1_cb' underflow_cb s =
     do_call (Letimer_pwm_open LETIMER0
       (app_letimer_pwm_struct period' act_period out0_route out1_route comp0_cb' comp1_cb' underflow_cb)) s"

definition rgb_led_open :: "app_state \<Rightarrow> app_state" where
  "rgb_led_open s = do_call Rgb_init (s\<lparr>RGB_COLOR := 0\<rparr>)"

definition app_peripheral_setup :: "hdr_consts \<Rightarrow> app_state \<Rightarrow> app_state" where
  "app_peripheral_setup K s =
     (let s1 = do_call Cmu_open s;
          s2 = do_call Sleep_open s1;
          s3 = do_call Gpio_open s2;
          s4 = do_call Si1133_i2c_open s3;
          s5 = do_call Scheduler_open s4;
          s6 = rgb_led_open s5;
          s7 = app_letimer_pwm_open (PWM_PER K) (PWM_ACT_PER K) (PWM_ROUTE_0 K) (PWM_ROUTE_1 K)
                 (LETIMER0_COMP0_CB K) (LETIMER0_COMP1_CB K) (LETIMER0_UF_CB K) s6
      in do_call (Letimer_start LETIMER0 True) s7)"

text \<open>The colour-cycling statements of the two timer callbacks are comments in the source.\<close>

definition scheduled_letimer0_uf_cb :: "hdr_consts \<Rightarrow> app_state \<Rightarrow> app_state" where
  "scheduled_letimer0_uf_cb K s = do_call (Si1133_read_white_light (SI1133_LIGHT_CB K)) s"

definition scheduled_letimer0_comp0_cb :: "app_state \<Rightarrow> app_state" where
  "scheduled_letimer0_comp0_cb s = s"

definition scheduled_letimer0_comp1_cb :: "app_state \<Rightarrow> app_state" where
  "scheduled_letimer0_comp1_cb s = do_call Si1133_force_cmd s"

text \<open>
  \<^verbatim>\<open>si1133_read_result\<close> belongs to the sensor driver; the value it returns is the
  argument \<open>si1133_data\<close>.  The comparison is the unsigned one of C on two 32-bit
  operands.
\<close>

definition scheduled_si1133_read_cb :: "hdr_consts \<Rightarrow> uint32_t \<Rightarrow> app_state \<Rightarrow> app_state" where
  "scheduled_si1133_read_cb K si1133_data s =
     (let s1 = do_call Si1133_read_result s
      in if si1133_data < EXPECTED_READ_DATA K
         then do_call (Leds_enabled (RGB_LED_1 K) COLOR_BLUE True) s1
         else do_call (Leds_enabled (RGB_LED_1 K) COLOR_BLUE False) s1)"

subsection \<open>The indicator and the dispatch of callbacks\<close>

text \<open>
  Modelled from the spec: \<^verbatim>\<open>leds_enabled\<close> is in the LED driver, which is not among
  the sources.  The spec calls its effect "sets the actuator (indicator) on ... off":
  the blue indicator of \<^verbatim>\<open>RGB_LED_1\<close> is on after a call with \<^verbatim>\<open>enable = true\<close> and
  off after a call with \<^verbatim>\<open>enable = false\<close>; no other recorded call is taken to
  change it.  \<open>None\<close> stands for an indicator that \<^verbatim>\<open>leds_enabled\<close> has not written.
\<close>

fun leds_enabled_blue :: "hdr_consts \<Rightarrow> bool option \<Rightarrow> call \<Rightarrow> bool option" where
  "leds_enabled_blue K ind (Leds_enabled leds color en) =
     (if leds = RGB_LED_1 K \<and> color = COLOR_BLUE then Some en else ind)"
| "leds_enabled_blue K ind _ = ind"

definition blue_indicator :: "hdr_consts \<Rightarrow> app_state \<Rightarrow> bool option" where
  "blue_indicator K s = foldl (leds_enabled_blue K) None (calls s)"

fun is_leds_enabled :: "call \<Rightarrow> bool" where
  "is_leds_enabled (Leds_enabled leds color en) = True"
| "is_leds_enabled _ = False"

fun is_letimer_call :: "call \<Rightarrow> bool" where
  "is_letimer_call (Letimer_pwm_open t cfg) = True"
| "is_letimer_call (Letimer_start t en) = True"
| "is_letimer_call _ = False"

text \<open>
  The main loop that dispatches the scheduled events is in \<^verbatim>\<open>main.c\<close>, outside the
  sources.  A run is any finite sequence of invocations of the four callbacks, the
  data-ready one together with the reading that the driver hands out.
\<close>

datatype callback =
    Letimer0_uf
  | Letimer0_comp0
  | Letimer0_comp1
  | Si1133_read uint32_t

fun invoke :: "hdr_consts \<Rightarrow> callback \<Rightarrow> app_state \<Rightarrow> app_state" where
  "invoke K Letimer0_uf s = scheduled_letimer0_uf_cb K s"
| "invoke K Letimer0_comp0 s = scheduled_letimer0_comp0_cb s"
| "invoke K Letimer0_comp1 s = scheduled_letimer0_comp1_cb s"
| "invoke K (Si1133_read r) s = scheduled_si1133_read_cb K r s"

definition run :: "hdr_consts \<Rightarrow> callback list \<Rightarrow> app_state \<Rightarrow> app_state" where
  "run K cbs s = foldl (\<lambda>s cb. invoke K cb s) s cbs"

text \<open>
  One sampling cycle in the order the spec gives for it: underflow, compare match,
  data ready.  \<open>indicator_states\<close> lists the indicator after each cycle.
\<close>

definition cycle :: "hdr_consts \<Rightarrow> uint32_t \<Rightarrow> app_state \<Rightarrow> app_state" where
  "cycle K r s = run K [Letimer0_uf, Letimer0_comp1, Si1133_read r] s"

fun indicator_states :: "hdr_consts \<Rightarrow> uint32_t list \<Rightarrow> app_state \<Rightarrow> bool option list" where
  "indicator_states K [] s = []"
| "indicator_states K (r # rs) s =
     blue_indicator K (cycle K r s) # indicator_states K rs (cycle K r s)"

text \<open>The readings handed to the data-ready callback in a run, in order.\<close>

fun readings :: "callback list \<Rightarrow> uint32_t list" where
  "readings [] = []"
| "readings (Si1133_read r # cbs) = r # readings cbs"
| "readings (cb # cbs) = readings cbs"

section \<open>Sensor transaction and sleep gate\<close>

text \<open>
  Modelled from the spec: the asynchronous sensor-read driver and its use of the
  sleep/power gate are in the Si1133, I2C and sleep drivers, none of which is among
  the sources.  The spec gives the transaction the states \<open>IDLE\<close>, \<open>COMMAND_SENT\<close>,
  \<open>AWAITING_RESULT\<close> and \<open>RESULT_READY\<close>; \<open>begin_read\<close> is valid only in \<open>IDLE\<close>, and
  \<open>take_result\<close> only in \<open>RESULT_READY\<close>, anything else being a fatal assertion; the
  gate is "incremented before \<open>begin_read()\<close> returns and decremented only once the
  transaction reaches \<open>IDLE\<close> again via \<open>take_result()\<close>".  The block count is an
  \<open>int\<close>, so that its sign is a property and not a matter of the type.
\<close>

datatype txn_state = IDLE | COMMAND_SENT | AWAITING_RESULT | RESULT_READY

datatype fatal = State_violation

record sensor_driver =
  txn :: txn_state
  latched :: uint32_t
  block_count :: int

text \<open>
  Modelled from the spec: \<open>begin_read\<close> of the absent sensor driver.  It blocks the
  gate and moves from \<open>IDLE\<close> to \<open>COMMAND_SENT\<close>.
\<close>

definition begin_read :: "sensor_driver \<Rightarrow> fatal + sensor_driver" where
  "begin_read d =
     (if txn d = IDLE
      then Inr (d\<lparr>txn := COMMAND_SENT, block_count := block_count d + 1\<rparr>)
      else Inl State_violation)"

text \<open>
  Modelled from the spec: the two completions that the bus controller reports to
  the absent sensor driver.  The end of the bus write moves \<open>COMMAND_SENT\<close> to
  \<open>AWAITING_RESULT\<close>; the end of the bus read latches the value and moves to
  \<open>RESULT_READY\<close>.  The spec has no transition for a completion in another state; it
  changes nothing here.
\<close>

definition bus_write_done :: "sensor_driver \<Rightarrow> sensor_driver" where
  "bus_write_done d = (if txn d = COMMAND_SENT then d\<lparr>txn := AWAITING_RESULT\<rparr> else d)"

definition bus_read_done :: "uint32_t \<Rightarrow> sensor_driver \<Rightarrow> sensor_driver" where
  "bus_read_done v d =
     (if txn d = AWAITING_RESULT then d\<lparr>txn := RESULT_READY, latched := v\<rparr> else d)"

text \<open>
  Modelled from the spec: \<open>take_result\<close> of the absent sensor driver.  It returns the
  latched value, goes back to \<open>IDLE\<close> and releases the gate.
\<close>

definition take_result :: "sensor_driver \<Rightarrow> fatal + uint32_t \<times> sensor_driver" where
  "take_result d =
     (if txn d = RESULT_READY
      then Inr (latched d, d\<lparr>txn := IDLE, block_count := block_count d - 1\<rparr>)
      else Inl State_violation)"

datatype drv_op = Begin_read | Bus_write_done | Bus_read_done uint32_t | Take_result

fun drv_step :: "drv_op \<Rightarrow> sensor_driver \<Rightarrow> fatal + sensor_driver" where
  "drv_step Begin_read d = begin_read d"
| "drv_step Bus_write_done d = Inr (bus_write_done d)"
| "drv_step (Bus_read_done v) d = Inr (bus_read_done v d)"
| "drv_step Take_result d = (case take_result d of Inl e \<Rightarrow> Inl e | Inr (v, d') \<Rightarrow> Inr d')"

text \<open>A fatal assertion ends the run.\<close>

fun drv_run :: "drv_op list \<Rightarrow> sensor_driver \<Rightarrow> fatal + sensor_driver" where
  "drv_run [] d = Inr d"
| "drv_run (op # ops) d = (case drv_step op d of Inl e \<Rightarrow> Inl e | Inr d' \<Rightarrow> drv_run ops d')"

text \<open>What an outstanding transaction adds to the block count.\<close>

definition gate_offset :: "sensor_driver \<Rightarrow> int" where
  "gate_offset d = (if txn d = IDLE then 0 else 1)"

section \<open>Properties\<close>

subsection \<open>Helper facts\<close>

lemma calls_do_call: "calls (do_call c s) = calls s @ [c]"
  by (simp add: do_call_def)

lemma RGB_COLOR_do_call: "RGB_COLOR (do_call c s) = RGB_COLOR s"
  by (simp add: do_call_def)

lemma blue_indicator_do_call:
  "blue_indicator K (do_call c s) = leds_enabled_blue K (blue_indicator K s) c"
  by (simp add: blue_indicator_def do_call_def)

lemma calls_read_cb:
  "calls (scheduled_si1133_read_cb K r s) =
     calls s @ [Si1133_read_result, Leds_enabled (RGB_LED_1 K) COLOR_BLUE (r < EXPECTED_READ_DATA K)]"
  by (simp add: scheduled_si1133_read_cb_def Let_def calls_do_call)

lemma blue_indicator_read_cb:
  "blue_indicator K (scheduled_si1133_read_cb K r s) = Some (r < EXPECTED_READ_DATA K)"
  by (simp add: scheduled_si1133_read_cb_def Let_def blue_indicator_do_call)

lemma run_Nil: "run K [] s = s"
  by (simp add: run_def)

lemma run_Cons: "run K (cb # cbs) s = run K cbs (invoke K cb s)"
  by (simp add: run_def)

lemma RGB_COLOR_invoke: "RGB_COLOR (invoke K cb s) = RGB_COLOR s"
  by (cases cb)
    (simp_all add: scheduled_letimer0_uf_cb_def scheduled_letimer0_comp0_cb_def
      scheduled_letimer0_comp1_cb_def scheduled_si1133_read_cb_def Let_def RGB_COLOR_do_call)

lemma RGB_COLOR_run: "RGB_COLOR (run K cbs s) = RGB_COLOR s"
  by (induction cbs arbitrary: s) (simp_all add: run_Nil run_Cons RGB_COLOR_invoke)

lemma letimer_calls_invoke:
  "filter is_letimer_call (calls (invoke K cb s)) = filter is_letimer_call (calls s)"
  by (cases cb)
    (simp_all add: scheduled_letimer0_uf_cb_def scheduled_letimer0_comp0_cb_def
      scheduled_letimer0_comp1_cb_def calls_read_cb calls_do_call)

lemma letimer_calls_run:
  "filter is_letimer_call (calls (run K cbs s)) = filter is_letimer_call (calls s)"
  by (induction cbs arbitrary: s) (simp_all add: run_Nil run_Cons letimer_calls_invoke)

lemma leds_calls_run:
  "filter is_leds_enabled (calls (run K cbs s)) =
     filter is_leds_enabled (calls s) @
     map (\<lambda>r. Leds_enabled (RGB_LED_1 K) COLOR_BLUE (r < EXPECTED_READ_DATA K)) (readings cbs)"
proof (induction cbs arbitrary: s)
  case Nil
  show ?case by (simp add: run_Nil)
next
  case (Cons cb cbs)
  show ?case
    by (cases cb)
      (simp_all add: run_Cons Cons.IH scheduled_letimer0_uf_cb_def
        scheduled_letimer0_comp0_cb_def scheduled_letimer0_comp1_cb_def calls_read_cb
        calls_do_call)
qed

lemma calls_setup:
  "calls (app_peripheral_setup K s) =
     calls s @
     [Cmu_open, Sleep_open, Gpio_open, Si1133_i2c_open, Scheduler_open, Rgb_init,
      Letimer_pwm_open LETIMER0
        (app_letimer_pwm_struct (PWM_PER K) (PWM_ACT_PER K) (PWM_ROUTE_0 K) (PWM_ROUTE_1 K)
          (LETIMER0_COMP0_CB K) (LETIMER0_COMP1_CB K) (LETIMER0_UF_CB K)),
      Letimer_start LETIMER0 True]"
  by (simp add: app_peripheral_setup_def Let_def rgb_led_open_def app_letimer_pwm_open_def
      calls_do_call)

lemma RGB_COLOR_setup: "RGB_COLOR (app_peripheral_setup K s) = 0"
  by (simp add: app_peripheral_setup_def Let_def rgb_led_open_def app_letimer_pwm_open_def
      RGB_COLOR_do_call)

subsection \<open>The data-ready callback\<close>

text \<open>
  C1.  Whatever reading \<^verbatim>\<open>si1133_read_result\<close> returns, the data-ready callback
  takes the result and then calls \<^verbatim>\<open>leds_enabled\<close> once, for the blue colour of
  \<^verbatim>\<open>RGB_LED_1\<close>, with the flag "reading strictly below \<^verbatim>\<open>EXPECTED_READ_DATA\<close>".  So the
  blue indicator is on exactly for readings below the threshold, and a reading equal
  to the threshold leaves it off.
\<close>

theorem read_cb_indicator_iff_below_threshold:
  "calls (scheduled_si1133_read_cb K r s) =
     calls s @ [Si1133_read_result,
                Leds_enabled (RGB_LED_1 K) COLOR_BLUE (r < EXPECTED_READ_DATA K)]
   \<and> blue_indicator K (scheduled_si1133_read_cb K r s) = Some (r < EXPECTED_READ_DATA K)
   \<and> blue_indicator K (scheduled_si1133_read_cb K (EXPECTED_READ_DATA K) s) = Some False"
  by (simp add: calls_read_cb blue_indicator_read_cb)

text \<open>
  C5.  With the threshold 50, four consecutive cycles with the readings 10, 60, 49 and
  50 leave the indicator on, off, on and off, from any starting state.
\<close>

theorem scenario_threshold_50:
  "indicator_states (K\<lparr>EXPECTED_READ_DATA := 50\<rparr>) [10, 60, 49, 50] s =
     [Some True, Some False, Some True, Some False]"
  by (simp add: cycle_def run_Cons run_Nil blue_indicator_read_cb)

subsection \<open>The timer callbacks\<close>

text \<open>
  C2.  The underflow callback makes one driver call, \<^verbatim>\<open>si1133_read_white_light\<close> with
  the event \<^verbatim>\<open>SI1133_LIGHT_CB\<close>, which starts the sensor read.  It leaves \<^verbatim>\<open>RGB_COLOR\<close>
  as it was and makes no \<^verbatim>\<open>leds_enabled\<close> call, so the indicator keeps its state.
\<close>

theorem uf_cb_reads_sensor_only:
  "calls (scheduled_letimer0_uf_cb K s) = calls s @ [Si1133_read_white_light (SI1133_LIGHT_CB K)]
   \<and> RGB_COLOR (scheduled_letimer0_uf_cb K s) = RGB_COLOR s
   \<and> filter is_leds_enabled (calls (scheduled_letimer0_uf_cb K s)) =
       filter is_leds_enabled (calls s)
   \<and> blue_indicator K (scheduled_letimer0_uf_cb K s) = blue_indicator K s"
  by (simp add: scheduled_letimer0_uf_cb_def calls_do_call RGB_COLOR_do_call
      blue_indicator_do_call)

text \<open>
  C3.  The compare-match callback makes one driver call, \<^verbatim>\<open>si1133_force_cmd\<close>, and
  nothing else: it does not take the result, it makes no \<^verbatim>\<open>leds_enabled\<close> call, and
  the module's variable \<^verbatim>\<open>RGB_COLOR\<close> keeps its value.
\<close>

theorem comp1_cb_force_cmd_only:
  "scheduled_letimer0_comp1_cb s = s\<lparr>calls := calls s @ [Si1133_force_cmd]\<rparr>
   \<and> calls (scheduled_letimer0_comp1_cb s) = calls s @ [Si1133_force_cmd]
   \<and> RGB_COLOR (scheduled_letimer0_comp1_cb s) = RGB_COLOR s
   \<and> blue_indicator K (scheduled_letimer0_comp1_cb s) = blue_indicator K s"
  by (simp add: scheduled_letimer0_comp1_cb_def do_call_def blue_indicator_def)

subsection \<open>The timer configuration\<close>

text \<open>
  C4.  For all arguments, \<^verbatim>\<open>app_letimer_pwm_open\<close> hands to \<^verbatim>\<open>letimer_pwm_open\<close> a
  configuration with the underflow and the compare-1 interrupt enabled and the
  compare-0 interrupt disabled.
\<close>

theorem pwm_open_irq_enables:
  "calls (app_letimer_pwm_open p a r0 r1 c0 c1 uf s) =
     calls s @ [Letimer_pwm_open LETIMER0 (app_letimer_pwm_struct p a r0 r1 c0 c1 uf)]
   \<and> uf_irq_enable (app_letimer_pwm_struct p a r0 r1 c0 c1 uf) = True
   \<and> comp1_irq_enable (app_letimer_pwm_struct p a r0 r1 c0 c1 uf) = True
   \<and> comp0_irq_enable (app_letimer_pwm_struct p a r0 r1 c0 c1 uf) = False"
  by (simp add: app_letimer_pwm_open_def app_letimer_pwm_struct_def calls_do_call)

text \<open>
  C9.  For all arguments, the configuration built by \<^verbatim>\<open>app_letimer_pwm_open\<close> has both
  output-pin enables false, while it stores the two route arguments.
\<close>

theorem pwm_open_output_pins_disabled:
  "calls (app_letimer_pwm_open p a r0 r1 c0 c1 uf s) =
     calls s @ [Letimer_pwm_open LETIMER0 (app_letimer_pwm_struct p a r0 r1 c0 c1 uf)]
   \<and> out_pin_0_en (app_letimer_pwm_struct p a r0 r1 c0 c1 uf) = False
   \<and> out_pin_1_en (app_letimer_pwm_struct p a r0 r1 c0 c1 uf) = False
   \<and> out_pin_route0 (app_letimer_pwm_struct p a r0 r1 c0 c1 uf) = r0
   \<and> out_pin_route1 (app_letimer_pwm_struct p a r0 r1 c0 c1 uf) = r1"
  by (simp add: app_letimer_pwm_open_def app_letimer_pwm_struct_def calls_do_call)

text \<open>
  C8.  \<^verbatim>\<open>app_peripheral_setup\<close> issues its eight driver calls in a fixed order, with
  \<^verbatim>\<open>letimer_pwm_open\<close> immediately before \<^verbatim>\<open>letimer_start\<close>; the configuration it opens
  the timer with has \<^verbatim>\<open>enable = false\<close>.  In the setup followed by any run of
  callbacks, the calls into the timer driver are that one \<^verbatim>\<open>letimer_pwm_open\<close> and,
  after it, that one \<^verbatim>\<open>letimer_start\<close>: the timer is configured once and is not
  configured again once started.
\<close>

theorem setup_configures_timer_once_before_start:
  "calls (app_peripheral_setup K s) =
     calls s @
     [Cmu_open, Sleep_open, Gpio_open, Si1133_i2c_open, Scheduler_open, Rgb_init,
      Letimer_pwm_open LETIMER0
        (app_letimer_pwm_struct (PWM_PER K) (PWM_ACT_PER K) (PWM_ROUTE_0 K) (PWM_ROUTE_1 K)
          (LETIMER0_COMP0_CB K) (LETIMER0_COMP1_CB K) (LETIMER0_UF_CB K)),
      Letimer_start LETIMER0 True]
   \<and> enable (app_letimer_pwm_struct (PWM_PER K) (PWM_ACT_PER K) (PWM_ROUTE_0 K) (PWM_ROUTE_1 K)
          (LETIMER0_COMP0_CB K) (LETIMER0_COMP1_CB K) (LETIMER0_UF_CB K)) = False
   \<and> filter is_letimer_call (calls (run K cbs (app_peripheral_setup K s))) =
       filter is_letimer_call (calls s) @
       [Letimer_pwm_open LETIMER0
          (app_letimer_pwm_struct (PWM_PER K) (PWM_ACT_PER K) (PWM_ROUTE_0 K) (PWM_ROUTE_1 K)
            (LETIMER0_COMP0_CB K) (LETIMER0_COMP1_CB K) (LETIMER0_UF_CB K)),
        Letimer_start LETIMER0 True]"
  by (simp add: letimer_calls_run calls_setup app_letimer_pwm_struct_def)

subsection \<open>Who writes the indicator and the colour state\<close>

text \<open>
  C6.  Of the functions of \<^verbatim>\<open>app.c\<close>, only the data-ready callback calls
  \<^verbatim>\<open>leds_enabled\<close>: it adds one such call, for the blue colour; the setup functions and
  the three timer callbacks add none.  Hence in any run of callbacks the
  \<^verbatim>\<open>leds_enabled\<close> calls are, one for one and in order, those of the data-ready
  invocations.
\<close>

theorem indicator_written_only_by_read_cb:
  "filter is_leds_enabled (calls (scheduled_si1133_read_cb K r s)) =
     filter is_leds_enabled (calls s) @
     [Leds_enabled (RGB_LED_1 K) COLOR_BLUE (r < EXPECTED_READ_DATA K)]
   \<and> filter is_leds_enabled (calls (scheduled_letimer0_uf_cb K s)) =
       filter is_leds_enabled (calls s)
   \<and> filter is_leds_enabled (calls (scheduled_letimer0_comp0_cb s)) =
       filter is_leds_enabled (calls s)
   \<and> filter is_leds_enabled (calls (scheduled_letimer0_comp1_cb s)) =
       filter is_leds_enabled (calls s)
   \<and> filter is_leds_enabled (calls (rgb_led_open s)) = filter is_leds_enabled (calls s)
   \<and> filter is_leds_enabled (calls (app_letimer_pwm_open p a r0 r1 c0 c1 uf s)) =
       filter is_leds_enabled (calls s)
   \<and> filter is_leds_enabled (calls (app_peripheral_setup K s)) =
       filter is_leds_enabled (calls s)
   \<and> filter is_leds_enabled (calls (run K cbs s)) =
       filter is_leds_enabled (calls s) @
       map (\<lambda>r. Leds_enabled (RGB_LED_1 K) COLOR_BLUE (r < EXPECTED_READ_DATA K)) (readings cbs)"
  by (simp add: calls_read_cb scheduled_letimer0_uf_cb_def scheduled_letimer0_comp0_cb_def
      scheduled_letimer0_comp1_cb_def rgb_led_open_def app_letimer_pwm_open_def calls_setup
      calls_do_call leds_calls_run)

text \<open>
  C10.  \<^verbatim>\<open>rgb_led_open\<close> sets \<^verbatim>\<open>RGB_COLOR\<close> to 0, and no callback assigns it: after
  \<^verbatim>\<open>rgb_led_open\<close>, or after the whole setup, \<^verbatim>\<open>RGB_COLOR\<close> is 0 at the end of every
  run of callbacks, so after each invocation in it.
\<close>

theorem RGB_COLOR_stays_zero:
  "RGB_COLOR (rgb_led_open s) = 0
   \<and> RGB_COLOR (invoke K cb s) = RGB_COLOR s
   \<and> RGB_COLOR (run K cbs (rgb_led_open s)) = 0
   \<and> RGB_COLOR (run K cbs (app_peripheral_setup K s)) = 0"
  by (simp add: RGB_COLOR_run RGB_COLOR_invoke RGB_COLOR_setup rgb_led_open_def
      RGB_COLOR_do_call)

subsection \<open>The sleep gate\<close>

lemma drv_step_balance:
  "drv_step op d = Inr d' \<Longrightarrow> block_count d' - gate_offset d' = block_count d - gate_offset d"
  by (cases op)
    (auto simp: begin_read_def bus_write_done_def bus_read_done_def take_result_def
      gate_offset_def split: if_splits)

lemma drv_run_balance:
  "drv_run ops d = Inr d' \<Longrightarrow> block_count d' - gate_offset d' = block_count d - gate_offset d"
proof (induction ops arbitrary: d)
  case Nil
  then show ?case by simp
next
  case (Cons op ops)
  then obtain d1 where s: "drv_step op d = Inr d1" and r: "drv_run ops d1 = Inr d'"
    by (auto split: sum.splits)
  from Cons.IH [OF r] drv_step_balance [OF s] show ?case by simp
qed

lemma drv_step_decrement:
  "drv_step op d = Inr d' \<Longrightarrow> block_count d' < block_count d
     \<Longrightarrow> op = Take_result \<and> txn d = RESULT_READY \<and> txn d' = IDLE"
  by (cases op)
    (auto simp: begin_read_def bus_write_done_def bus_read_done_def take_result_def
      split: if_splits)

lemma full_cycle:
  "txn d = IDLE \<Longrightarrow>
   drv_run [Begin_read, Bus_write_done, Bus_read_done v, Take_result] d =
     Inr (d\<lparr>txn := IDLE, latched := v, block_count := block_count d\<rparr>)"
  by (simp add: begin_read_def bus_write_done_def bus_read_done_def take_result_def)

text \<open>
  C7.  Start from an idle driver with a block count that is not negative, and let
  any sequence of driver operations run without a fatal assertion.  Then the block
  count is not negative; it is the starting count while the transaction is idle and
  one more while a transaction is outstanding, so every completed cycle returns it
  to the starting value; \<open>begin_read\<close> returns with the count raised by one; the only
  operation that lowers the count is \<open>take_result\<close>, which ends in \<open>IDLE\<close>; and the
  full cycle begin, write done, read done, take does run and ends idle with the
  starting count.
\<close>

theorem sleep_gate_balanced:
  assumes "txn d0 = IDLE" and "0 \<le> block_count d0" and "drv_run ops d0 = Inr d"
  shows "0 \<le> block_count d
    \<and> block_count d = (if txn d = IDLE then block_count d0 else block_count d0 + 1)
    \<and> (\<exists>d1. begin_read d0 = Inr d1 \<and> block_count d1 = block_count d0 + 1)
    \<and> (\<forall>op d'. drv_step op d = Inr d' \<and> block_count d' < block_count d
          \<longrightarrow> op = Take_result \<and> txn d' = IDLE)
    \<and> (\<exists>d'. drv_run [Begin_read, Bus_write_done, Bus_read_done v, Take_result] d0 = Inr d'
          \<and> txn d' = IDLE \<and> block_count d' = block_count d0)"
proof -
  from drv_run_balance [OF assms(3)] assms(1)
  have eq: "block_count d = (if txn d = IDLE then block_count d0 else block_count d0 + 1)"
    by (simp add: gate_offset_def split: if_splits)
  with assms(2) have nonneg: "0 \<le> block_count d"
    by (simp split: if_splits)
  have inc: "\<exists>d1. begin_read d0 = Inr d1 \<and> block_count d1 = block_count d0 + 1"
    using assms(1) by (simp add: begin_read_def)
  have dec: "\<forall>op d'. drv_step op d = Inr d' \<and> block_count d' < block_count d
          \<longrightarrow> op = Take_result \<and> txn d' = IDLE"
    using drv_step_decrement by blast
  have cyc: "\<exists>d'. drv_run [Begin_read, Bus_write_done, Bus_read_done v, Take_result] d0 = Inr d'
          \<and> txn d' = IDLE \<and> block_count d' = block_count d0"
    unfolding full_cycle [OF assms(1)] by simp
  from nonneg eq inc dec cyc show ?thesis by blast
qed

text \<open>
  The hypotheses hold for a driver that starts idle with count 0, runs one full cycle
  with the reading 10 and begins the next: the count is then 1.
\<close>

theorem sleep_gate_balanced_witness:
  "txn \<lparr>txn = IDLE, latched = 0, block_count = 0\<rparr> = IDLE
   \<and> (0::int) \<le> block_count \<lparr>txn = IDLE, latched = 0, block_count = 0\<rparr>
   \<and> drv_run [Begin_read, Bus_write_done, Bus_read_done 10, Take_result, Begin_read]
        \<lparr>txn = IDLE, latched = 0, block_count = 0\<rparr>
      = Inr \<lparr>txn = COMMAND_SENT, latched = 10, block_count = 1\<rparr>
   \<and> block_count \<lparr>txn = COMMAND_SENT, latched = 10, block_count = 1\<rparr> = 0 + 1"
  using sleep_gate_balanced [of "\<lparr>txn = IDLE, latched = 0, block_count = 0\<rparr>"
      "[Begin_read, Bus_write_done, Bus_read_done 10, Take_result, Begin_read]"
      "\<lparr>txn = COMMAND_SENT, latched = 10, block_count = 1\<rparr>"]
  by (simp add: begin_read_def bus_write_done_def bus_read_done_def take_result_def)

end
